theory Spec2Isabelle
  imports Complex_Main "HOL-Library.Multiset"
begin

section \<open>textacy/texts.py: TextDoc and TextCorpus\<close>

text \<open>
  The module wraps documents parsed by spaCy. Everything spaCy and the helper modules of
  textacy (\<^verbatim>\<open>extract\<close>, \<^verbatim>\<open>keyterms\<close>, \<^verbatim>\<open>network\<close>, \<^verbatim>\<open>data\<close>, \<^verbatim>\<open>text_utils\<close>,
  \<^verbatim>\<open>spacy_utils\<close>) compute is outside \<^verbatim>\<open>texts.py\<close>; those functions are parameters of the
  model (the record \<open>collaborators\<close> below), taken as deterministic total functions.
  What \<^verbatim>\<open>texts.py\<close> itself does (dispatch, the checks that raise, the merging of counters,
  the bookkeeping of the corpus) is translated statement by statement.
\<close>

subsection \<open>Exceptions\<close>

datatype error =
  ValueError | TypeError | AttributeError | KeyError | ZeroDivisionError | UnboundLocalError

subsection \<open>spaCy objects, as far as texts.py reads them\<close>

text \<open>
  A spaCy \<^verbatim>\<open>Token\<close> has two positions: \<^verbatim>\<open>Token.i\<close>, its index in the token sequence of
  the document, and \<^verbatim>\<open>Token.idx\<close>, the character offset of its first character in the
  text. A \<^verbatim>\<open>Span\<close> covers the tokens \<^verbatim>\<open>start\<close> (inclusive) to \<^verbatim>\<open>end\<close> (exclusive), both
  token indices. In token coordinates a token is the span \<open>(i, i + 1)\<close>.
\<close>

record stoken =
  tok_i :: nat
  tok_idx :: nat
  tok_text :: string
  tok_lemma :: string

record sspan =
  span_start :: nat
  span_end :: nat
  span_text :: string
  span_lemma :: string

datatype term_obj = Tok stoken | Spn sspan

fun lemma_of :: "term_obj \<Rightarrow> string" where
  "lemma_of (Tok t) = tok_lemma t"
| "lemma_of (Spn s) = span_lemma s"

fun text_of :: "term_obj \<Rightarrow> string" where
  "text_of (Tok t) = tok_text t"
| "text_of (Spn s) = span_text s"

text \<open>
  The string store interns strings: indexed by a string it gives the string's id,
  indexed by an id it gives the string back.
\<close>

record stringstore =
  ss_id :: "string \<Rightarrow> nat"
  ss_str :: "nat \<Rightarrow> string"

record vocab =
  vocab_strings :: stringstore

record sdoc =
  text_with_ws :: string
  sd_tokens :: "stoken list"
  sd_sents :: "sspan list"
  sd_vocab :: vocab

text \<open>
  A pipeline parses one text when called, and a batch of texts with \<^verbatim>\<open>pipe\<close>, which
  yields the parsed documents.
\<close>

record pipeline =
  pipe_lang :: string
  pipe_vocab :: vocab
  pipe_call :: "string \<Rightarrow> sdoc"
  pipe :: "string list \<Rightarrow> sdoc list"

subsection \<open>Arguments\<close>

text \<open>Keyword arguments passed through to the extractors unread.\<close>

datatype kwval = KBool bool | KInt int | KTags "string list"

type_synonym kwargs = "(string \<times> kwval) list"

text \<open>The argument \<^verbatim>\<open>n\<close> of the key-term functions: an int or a float.\<close>

datatype num_arg = NInt int | NFloat real

text \<open>\<^verbatim>\<open>lemmatize\<close> of \<^verbatim>\<open>term_counts\<close>: the string 'auto', True, or anything else.\<close>

datatype lemmatize = Auto | LTrue | LOther

text \<open>The first argument of the constructor: a string, a spaCy document, or anything else.\<close>

datatype init_arg = Str string | SDoc sdoc | Other

text \<open>The argument of \<^verbatim>\<open>term_count\<close>: a string, a token, a span, or anything else.\<close>

datatype term_arg = TStr string | TToken stoken | TSpan sspan | TOther

subsection \<open>Functions of other modules\<close>

record 'g collaborators =
  detect_language :: "string \<Rightarrow> string"
  load_spacy :: "string \<Rightarrow> pipeline"
  normalized_str :: "term_obj \<Rightarrow> string"
  extract_words :: "sdoc \<Rightarrow> kwargs \<Rightarrow> stoken list"
  extract_ngrams :: "sdoc \<Rightarrow> int \<Rightarrow> kwargs \<Rightarrow> sspan list"
  extract_named_entities :: "sdoc \<Rightarrow> kwargs \<Rightarrow> sspan list"
  extract_noun_chunks :: "sdoc \<Rightarrow> kwargs \<Rightarrow> sspan list"
  keyterms_sgrank :: "sdoc \<Rightarrow> int \<Rightarrow> num_arg \<Rightarrow> (string \<times> real) list"
  keyterms_textrank :: "sdoc \<Rightarrow> num_arg \<Rightarrow> (string \<times> real) list"
  keyterms_singlerank :: "sdoc \<Rightarrow> num_arg \<Rightarrow> (string \<times> real) list"
  terms_to_semantic_network :: "stoken list \<Rightarrow> int \<Rightarrow> string \<Rightarrow> 'g"
  sents_to_semantic_network :: "sspan list \<Rightarrow> string \<Rightarrow> 'g"

subsection \<open>TextDoc\<close>

text \<open>
  \<open>term_counts_memo\<close> is the attribute \<^verbatim>\<open>_term_counts\<close>, a \<^verbatim>\<open>Counter\<close>. The module builds
  it only from \<^verbatim>\<open>Counter()\<close>, \<^verbatim>\<open>Counter(iterable)\<close>, \<^verbatim>\<open>|\<close> and \<^verbatim>\<open>+=\<close>, so every stored count
  is positive and the counter is a multiset of term ids: \<^verbatim>\<open>Counter(iterable)\<close> is \<open>mset\<close>,
  \<^verbatim>\<open>a | b\<close> (the maximum per key) is \<open>a \<union># b\<close>, \<^verbatim>\<open>a += b\<close> is \<open>a + b\<close>, and \<^verbatim>\<open>a[k]\<close> is
  \<open>count a k\<close>, 0 for a missing key.

  \<open>corpus_index\<close> and \<open>corpus\<close> are set by a corpus only; \<open>None\<close> is the attribute being
  absent (\<^verbatim>\<open>hasattr\<close> false). \<open>corpus\<close> holds the address of the owning corpus.
\<close>

record text_doc =
  metadata :: "(string \<times> string) list"
  term_counts_memo :: "nat multiset"
  lang :: string
  spacy_vocab :: vocab
  spacy_stringstore :: stringstore
  spacy_doc :: sdoc
  corpus_index :: "int option"
  corpus :: "nat option"

text \<open>
  \<^verbatim>\<open>detect_language(text) if not lang else lang\<close>: \<^verbatim>\<open>not lang\<close> holds when the argument is
  None or the empty string.
\<close>

definition lang_or_detect :: "'g collaborators \<Rightarrow> string option \<Rightarrow> string \<Rightarrow> string" where
  "lang_or_detect C lang_arg txt =
     (case lang_arg of
        None \<Rightarrow> detect_language C txt
      | Some l \<Rightarrow> if l = [] then detect_language C txt else l)"

definition TextDoc_init ::
  "'g collaborators \<Rightarrow> init_arg \<Rightarrow> pipeline option \<Rightarrow> string option \<Rightarrow>
   (string \<times> string) list option \<Rightarrow> error + text_doc" where
  "TextDoc_init C text_or_sdoc spacy_pipeline lang_arg metadata_arg =
     (let md = (case metadata_arg of None \<Rightarrow> [] | Some m \<Rightarrow> m) in
      case text_or_sdoc of
        Str txt \<Rightarrow>
          (let self_lang = lang_or_detect C lang_arg txt in
           case spacy_pipeline of
             None \<Rightarrow>
               (let p = load_spacy C self_lang in
                Inr \<lparr>metadata = md, term_counts_memo = {#}, lang = self_lang,
                     spacy_vocab = pipe_vocab p,
                     spacy_stringstore = vocab_strings (pipe_vocab p),
                     spacy_doc = pipe_call p txt,
                     corpus_index = None, corpus = None\<rparr>)
           | Some p \<Rightarrow>
               if pipe_lang p \<noteq> self_lang then Inl ValueError
               else
                 Inr \<lparr>metadata = md, term_counts_memo = {#}, lang = self_lang,
                      spacy_vocab = pipe_vocab p,
                      spacy_stringstore = vocab_strings (pipe_vocab p),
                      spacy_doc = pipe_call p txt,
                      corpus_index = None, corpus = None\<rparr>)
      | SDoc sd \<Rightarrow>
          Inr \<lparr>metadata = md, term_counts_memo = {#},
               lang = (case spacy_pipeline of
                         Some p \<Rightarrow> pipe_lang p
                       | None \<Rightarrow> detect_language C (text_with_ws sd)),
               spacy_vocab = sd_vocab sd,
               spacy_stringstore = vocab_strings (sd_vocab sd),
               spacy_doc = sd,
               corpus_index = None, corpus = None\<rparr>
      | Other \<Rightarrow> Inl ValueError)"

definition doc_n_tokens :: "text_doc \<Rightarrow> int" where
  "doc_n_tokens d = int (length (sd_tokens (spacy_doc d)))"

definition doc_n_sents :: "text_doc \<Rightarrow> int" where
  "doc_n_sents d = int (length (sd_sents (spacy_doc d)))"

definition doc_text :: "text_doc \<Rightarrow> string" where
  "doc_text d = text_with_ws (spacy_doc d)"

definition words :: "'g collaborators \<Rightarrow> text_doc \<Rightarrow> kwargs \<Rightarrow> stoken list" where
  "words C d kw = extract_words C (spacy_doc d) kw"

definition ngrams :: "'g collaborators \<Rightarrow> text_doc \<Rightarrow> int \<Rightarrow> kwargs \<Rightarrow> sspan list" where
  "ngrams C d n kw = extract_ngrams C (spacy_doc d) n kw"

definition named_entities :: "'g collaborators \<Rightarrow> text_doc \<Rightarrow> kwargs \<Rightarrow> sspan list" where
  "named_entities C d kw = extract_named_entities C (spacy_doc d) kw"

definition noun_chunks :: "'g collaborators \<Rightarrow> text_doc \<Rightarrow> kwargs \<Rightarrow> sspan list" where
  "noun_chunks C d kw = extract_noun_chunks C (spacy_doc d) kw"

definition key_terms ::
  "'g collaborators \<Rightarrow> text_doc \<Rightarrow> string \<Rightarrow> num_arg \<Rightarrow> error + (string \<times> real) list" where
  "key_terms C d algorithm n =
     (if algorithm = ''sgrank'' then Inr (keyterms_sgrank C (spacy_doc d) 1500 n)
      else if algorithm = ''textrank'' then Inr (keyterms_textrank C (spacy_doc d) n)
      else if algorithm = ''singlerank'' then Inr (keyterms_singlerank C (spacy_doc d) n)
      else Inl ValueError)"

definition as_semantic_network ::
  "'g collaborators \<Rightarrow> text_doc \<Rightarrow> string \<Rightarrow> string \<Rightarrow> int \<Rightarrow> error + 'g" where
  "as_semantic_network C d nodes edge_weighting window_width =
     (if nodes = ''terms'' then
        Inr (terms_to_semantic_network C (words C d []) window_width
               (if edge_weighting = ''default'' then ''cooc_freq'' else edge_weighting))
      else if nodes = ''sents'' then
        Inr (sents_to_semantic_network C (sd_sents (spacy_doc d))
               (if edge_weighting = ''default'' then ''cosine'' else edge_weighting))
      else Inl ValueError)"

text \<open>
  \<^verbatim>\<open>as_terms_list\<close> is a generator; the model returns the sequence it yields. \<open>terms_of\<close>
  is the local \<^verbatim>\<open>all_terms\<close> flattened (the term objects, before \<^verbatim>\<open>lemma_\<close> or \<^verbatim>\<open>text\<close> is
  read off each). \<^verbatim>\<open>ngrams\<close> is a pair \<^verbatim>\<open>(min, max)\<close> or a false value, \<open>None\<close> here;
  \<^verbatim>\<open>range(ngrams[0], ngrams[1] + 1)\<close> is \<open>[lo..hi]\<close>.
\<close>

definition terms_of ::
  "'g collaborators \<Rightarrow> text_doc \<Rightarrow> bool \<Rightarrow> (int \<times> int) option \<Rightarrow> bool \<Rightarrow> bool \<Rightarrow>
   kwargs \<Rightarrow> term_obj list" where
  "terms_of C d words_flag ngrams_arg ne_flag dedupe kw =
     (if dedupe \<and> ne_flag \<and> (words_flag \<or> ngrams_arg \<noteq> None) then
        (let ents = named_entities C d kw;
             ent_idxs = set (map (\<lambda>ent. (span_start ent, span_end ent)) ents)
         in map Spn ents
            @ (if words_flag then
                 map Tok (filter (\<lambda>word. (tok_idx word, tok_idx word + 1) \<notin> ent_idxs)
                            (words C d kw))
               else [])
            @ (case ngrams_arg of
                 None \<Rightarrow> []
               | Some (lo, hi) \<Rightarrow>
                   concat (map (\<lambda>n. if n = 1 \<and> words_flag then []
                                     else map Spn
                                            (filter (\<lambda>ngram. (span_start ngram, span_end ngram)
                                                                \<notin> ent_idxs)
                                               (ngrams C d n kw)))
                             [lo..hi])))
      else
        (if ne_flag then map Spn (named_entities C d kw) else [])
        @ (if words_flag then map Tok (words C d kw) else [])
        @ (case ngrams_arg of
             None \<Rightarrow> []
           | Some (lo, hi) \<Rightarrow>
               concat (map (\<lambda>n. if n = 1 \<and> words_flag then []
                                 else map Spn (ngrams C d n kw))
                         [lo..hi])))"

definition as_terms_list ::
  "'g collaborators \<Rightarrow> text_doc \<Rightarrow> bool \<Rightarrow> (int \<times> int) option \<Rightarrow> bool \<Rightarrow> bool \<Rightarrow> bool \<Rightarrow>
   kwargs \<Rightarrow> string list" where
  "as_terms_list C d words_flag ngrams_arg ne_flag dedupe lemmatize_flag kw =
     (if lemmatize_flag
      then map lemma_of (terms_of C d words_flag ngrams_arg ne_flag dedupe kw)
      else map text_of (terms_of C d words_flag ngrams_arg ne_flag dedupe kw))"

text \<open>The span a term covers, in token indices.\<close>

fun token_span :: "term_obj \<Rightarrow> nat \<times> nat" where
  "token_span (Tok t) = (tok_i t, tok_i t + 1)"
| "token_span (Spn s) = (span_start s, span_end s)"

subsubsection \<open>term_counts\<close>

definition get_id :: "'g collaborators \<Rightarrow> text_doc \<Rightarrow> lemmatize \<Rightarrow> term_obj \<Rightarrow> nat" where
  "get_id C d lem x =
     (case lem of
        Auto \<Rightarrow> ss_id (spacy_stringstore d) (normalized_str C x)
      | LTrue \<Rightarrow> ss_id (spacy_stringstore d) (lemma_of x)
      | LOther \<Rightarrow> ss_id (spacy_stringstore d) (text_of x))"

text \<open>One round of the loop over \<^verbatim>\<open>range(ngram_range[0], ngram_range[1] + 1)\<close>.\<close>

definition count_ngrams :: "'g collaborators \<Rightarrow> lemmatize \<Rightarrow> int \<Rightarrow> text_doc \<Rightarrow> text_doc" where
  "count_ngrams C lem n d =
     (if n = 1 then
        d\<lparr>term_counts_memo :=
            term_counts_memo d \<union># mset (map (\<lambda>word. get_id C d lem (Tok word)) (words C d []))\<rparr>
      else
        d\<lparr>term_counts_memo :=
            term_counts_memo d \<union># mset (map (\<lambda>ngram. get_id C d lem (Spn ngram)) (ngrams C d n []))\<rparr>)"

definition term_counts ::
  "'g collaborators \<Rightarrow> text_doc \<Rightarrow> lemmatize \<Rightarrow> int \<times> int \<Rightarrow> bool \<Rightarrow> bool \<Rightarrow> bool \<Rightarrow>
   (error + nat multiset) \<times> text_doc" where
  "term_counts C d lem ngram_range include_nes include_ncs include_kts =
     (let d1 = fold (count_ngrams C lem) [fst ngram_range..snd ngram_range] d;
          d2 = (if include_nes then
                  d1\<lparr>term_counts_memo :=
                       term_counts_memo d1
                       \<union># mset (map (\<lambda>ne. get_id C d1 lem (Spn ne)) (named_entities C d1 []))\<rparr>
                else d1);
          d3 = (if include_ncs then
                  d2\<lparr>term_counts_memo :=
                       term_counts_memo d2
                       \<union># mset (map (\<lambda>nc. get_id C d2 lem (Spn nc)) (noun_chunks C d2 []))\<rparr>
                else d2)
      in if include_kts then
           (case key_terms C d3 ''sgrank'' (NInt 10) of
              Inl e \<Rightarrow> (Inl e, d3)
            | Inr kts \<Rightarrow>
                (let d4 = d3\<lparr>term_counts_memo :=
                               term_counts_memo d3
                               \<union># mset (map (\<lambda>(kt, _). ss_id (spacy_stringstore d3) kt) kts)\<rparr>
                 in (Inr (term_counts_memo d4), d4)))
         else (Inr (term_counts_memo d3), d3))"

subsubsection \<open>term_count\<close>

definition count_spaces :: "string \<Rightarrow> nat" where
  "count_spaces s = length (filter (\<lambda>c. c = CHR '' '') s)"

text \<open>
  \<^verbatim>\<open>sum(1 for _ in re.finditer(re.escape(pat), s))\<close>: the matches of the literal \<open>pat\<close>
  found scanning left to right, each search starting where the last match ended. The empty
  pattern matches once at every position, the end included.
\<close>

function count_matches :: "string \<Rightarrow> string \<Rightarrow> nat" where
  "count_matches pat s =
     (if pat = [] then Suc (length s)
      else if s = [] then 0
      else if take (length pat) s = pat
        then Suc (count_matches pat (drop (length pat) s))
      else count_matches pat (tl s))"
  by pat_completeness auto
termination
  by (relation "measure (\<lambda>(pat, s). length s)") auto

definition term_count ::
  "'g collaborators \<Rightarrow> text_doc \<Rightarrow> term_arg \<Rightarrow> (error + int) \<times> text_doc" where
  "term_count C d term =
     (case (case term of
              TStr s \<Rightarrow> Some (s, int (count_spaces s) + 1)
            | TToken t \<Rightarrow> Some (normalized_str C (Tok t), 1)
            | TSpan sp \<Rightarrow> Some (normalized_str C (Spn sp), int (span_end sp - span_start sp))
            | TOther \<Rightarrow> None) of
        None \<Rightarrow> (Inl UnboundLocalError, d)
      | Some (term_text, term_len) \<Rightarrow>
          (let term_id = ss_id (spacy_stringstore d) term_text;
               term_count1 = count (term_counts_memo d) term_id
           in if term_count1 > 0 then (Inr (int term_count1), d)
              else if \<not> (\<exists>t \<in># term_counts_memo d.
                            int (count_spaces (ss_str (spacy_stringstore d) t)) = term_len)
              then
                (let d' = d\<lparr>term_counts_memo :=
                              term_counts_memo d
                              + (if term_len = 1
                                 then mset (map (\<lambda>w. get_id C d Auto (Tok w)) (words C d []))
                                 else mset (map (\<lambda>ng. get_id C d Auto (Spn ng))
                                              (ngrams C d term_len [])))\<rparr>;
                     term_count2 = count (term_counts_memo d') term_id
                 in if term_count2 > 0 then (Inr (int term_count2), d')
                    else (Inr (int (count_matches term_text (doc_text d'))), d'))
              else (Inr (int (count_matches term_text (doc_text d))), d)))"

subsubsection \<open>as_bag_of_terms\<close>

text \<open>
  The result is a \<^verbatim>\<open>Counter\<close> built from a dict, a map from term ids to weights. Weights
  are ints or floats in the source; the model has reals. \<open>idf\<close> is a dict or None, an
  association list here; it is true when it is not None and not empty, and \<^verbatim>\<open>idf[key]\<close>
  raises KeyError for a missing key.
\<close>

definition counter_items :: "nat multiset \<Rightarrow> (nat \<rightharpoonup> real)" where
  "counter_items tc = (\<lambda>key. if key \<in># tc then Some (real (count tc key)) else None)"

definition as_bag_of_terms ::
  "'g collaborators \<Rightarrow> text_doc \<Rightarrow> string \<Rightarrow> bool \<Rightarrow> bool \<Rightarrow> (nat \<times> real) list option \<Rightarrow>
   lemmatize \<Rightarrow> int \<times> int \<Rightarrow> bool \<Rightarrow> bool \<Rightarrow> bool \<Rightarrow> (error + (nat \<rightharpoonup> real)) \<times> text_doc" where
  "as_bag_of_terms C d weighting normalized binary idf lem ngram_range
       include_nes include_ncs include_kts =
     (case term_counts C d lem ngram_range include_nes include_ncs include_kts of
        (Inl e, d') \<Rightarrow> (Inl e, d')
      | (Inr tc, d') \<Rightarrow>
          (case (if binary then
                   Inr (\<lambda>key. if key \<in># tc then Some 1 else None)
                 else if normalized then
                   (if tc \<noteq> {#} \<and> doc_n_tokens d' = 0 then Inl ZeroDivisionError
                    else Inr (\<lambda>key. if key \<in># tc
                                     then Some (real (count tc key) / real_of_int (doc_n_tokens d'))
                                     else None))
                 else Inr (counter_items tc)) of
             Inl e \<Rightarrow> (Inl e, d')
           | Inr term_weights \<Rightarrow>
               (case idf of
                  None \<Rightarrow> (Inr term_weights, d')
                | Some m \<Rightarrow>
                    if weighting = ''tfidf'' \<and> m \<noteq> [] then
                      (if \<exists>key \<in># tc. map_of m key = None then (Inl KeyError, d')
                       else (Inr (\<lambda>key. case (term_weights key, map_of m key) of
                                          (Some val, Some w) \<Rightarrow> Some (val * w)
                                        | _ \<Rightarrow> None), d'))
                    else (Inr term_weights, d'))))"

subsection \<open>TextCorpus\<close>

text \<open>
  A corpus holds references to its docs and each doc a reference back to its corpus, and
  the corpus methods assign attributes of docs that the caller still holds. Docs and corpora
  therefore live in a store: \<open>doc_heap\<close> and \<open>corpus_heap\<close> give the object at an address,
  addresses below \<open>next_doc\<close> and \<open>next_corpus\<close> are in use, and a new object takes the next
  address. \<open>stdout\<close> is what has been printed.
\<close>

record text_corpus =
  c_lang :: string
  c_spacy_pipeline :: pipeline
  c_spacy_vocab :: vocab
  c_spacy_stringstore :: stringstore
  docs :: "nat list"
  n_docs :: int
  n_sents :: int
  n_tokens :: int

record world =
  doc_heap :: "nat \<Rightarrow> text_doc"
  next_doc :: nat
  corpus_heap :: "nat \<Rightarrow> text_corpus"
  next_corpus :: nat
  stdout :: "string list"

definition new_doc :: "world \<Rightarrow> text_doc \<Rightarrow> world \<times> nat" where
  "new_doc w d =
     (w\<lparr>doc_heap := (doc_heap w)(next_doc w := d), next_doc := Suc (next_doc w)\<rparr>, next_doc w)"

text \<open>
  \<^verbatim>\<open>copy.deepcopy(doc)\<close>: a new object with the fields of \<open>doc\<close>. The copies deepcopy makes
  of what the doc refers to (its owning corpus among them) are reachable from the copy's
  \<open>corpus\<close> attribute only, which \<^verbatim>\<open>add_doc\<close> overwrites two statements later; they are not
  kept in the store.
\<close>

definition deepcopy :: "world \<Rightarrow> nat \<Rightarrow> world \<times> nat" where
  "deepcopy w doc = new_doc w (doc_heap w doc)"

definition TextCorpus_init :: "'g collaborators \<Rightarrow> world \<Rightarrow> string \<Rightarrow> world \<times> nat" where
  "TextCorpus_init C w lang_arg =
     (let p = load_spacy C lang_arg in
      (w\<lparr>corpus_heap := (corpus_heap w)(next_corpus w :=
            \<lparr>c_lang = lang_arg, c_spacy_pipeline = p, c_spacy_vocab = pipe_vocab p,
             c_spacy_stringstore = vocab_strings (pipe_vocab p),
             docs = [], n_docs = 0, n_sents = 0, n_tokens = 0\<rparr>),
          next_corpus := Suc (next_corpus w)\<rparr>,
       next_corpus w))"

text \<open>
  The six statements that end both \<^verbatim>\<open>add_text\<close> and \<^verbatim>\<open>add_doc\<close>: set the doc's
  \<^verbatim>\<open>corpus_index\<close> and \<^verbatim>\<open>corpus\<close>, append it, and add to the three counters.
\<close>

definition append_doc :: "world \<Rightarrow> nat \<Rightarrow> nat \<Rightarrow> world" where
  "append_doc w self doc =
     (let d = (doc_heap w doc)\<lparr>corpus_index := Some (n_docs (corpus_heap w self)),
                                corpus := Some self\<rparr>;
          w1 = w\<lparr>doc_heap := (doc_heap w)(doc := d)\<rparr>;
          c = corpus_heap w1 self
      in w1\<lparr>corpus_heap := (corpus_heap w1)(self :=
              c\<lparr>docs := docs c @ [doc],
                n_docs := n_docs c + 1,
                n_sents := n_sents c + doc_n_sents d,
                n_tokens := n_tokens c + doc_n_tokens d\<rparr>)\<rparr>)"

definition add_text ::
  "'g collaborators \<Rightarrow> world \<Rightarrow> nat \<Rightarrow> string \<Rightarrow> string option \<Rightarrow>
   (string \<times> string) list option \<Rightarrow> (error + unit) \<times> world" where
  "add_text C w self txt lang_arg metadata_arg =
     (case TextDoc_init C (Str txt) (Some (c_spacy_pipeline (corpus_heap w self)))
             lang_arg metadata_arg of
        Inl e \<Rightarrow> (Inl e, w)
      | Inr d \<Rightarrow> (let (w1, doc) = new_doc w d in (Inr (), append_doc w1 self doc)))"

definition add_doc :: "world \<Rightarrow> nat \<Rightarrow> nat \<Rightarrow> bool \<Rightarrow> (error + unit) \<times> world" where
  "add_doc w self doc print_warning =
     (if lang (doc_heap w doc) \<noteq> c_lang (corpus_heap w self) then (Inl ValueError, w)
      else if corpus_index (doc_heap w doc) \<noteq> None then
        (let (w1, doc') = deepcopy w doc;
             w2 = (if print_warning
                   then w1\<lparr>stdout := stdout w1 @
                          [''**WARNING: TextDoc already associated with a TextCorpus; adding anyway...'']\<rparr>
                   else w1)
         in (Inr (), append_doc w2 self doc'))
      else (Inr (), append_doc w self doc))"

text \<open>
  \<^verbatim>\<open>from_texts\<close>: the loop over the parsed documents (paired with their metadata, or with
  None). \<^verbatim>\<open>n_threads\<close> and \<^verbatim>\<open>batch_size\<close> only tune the pipeline and are left out.
\<close>

fun add_docs_loop ::
  "'g collaborators \<Rightarrow> world \<Rightarrow> nat \<Rightarrow> string \<Rightarrow> (sdoc \<times> (string \<times> string) list option) list \<Rightarrow>
   (error + unit) \<times> world" where
  "add_docs_loop C w textcorpus lang_arg [] = (Inr (), w)"
| "add_docs_loop C w textcorpus lang_arg ((sd, md) # rest) =
     (case TextDoc_init C (SDoc sd) (Some (c_spacy_pipeline (corpus_heap w textcorpus)))
             (Some lang_arg) md of
        Inl e \<Rightarrow> (Inl e, w)
      | Inr d \<Rightarrow>
          (let (w1, doc) = new_doc w d in
           case add_doc w1 textcorpus doc True of
             (Inl e, w2) \<Rightarrow> (Inl e, w2)
           | (Inr u, w2) \<Rightarrow> add_docs_loop C w2 textcorpus lang_arg rest))"

definition from_texts ::
  "'g collaborators \<Rightarrow> world \<Rightarrow> string \<Rightarrow> string list \<Rightarrow> (string \<times> string) list list option \<Rightarrow>
   (error + nat) \<times> world" where
  "from_texts C w lang_arg texts metadata_arg =
     (let (w1, textcorpus) = TextCorpus_init C w lang_arg;
          spacy_docs = pipe (c_spacy_pipeline (corpus_heap w1 textcorpus)) texts
      in case add_docs_loop C w1 textcorpus lang_arg
                (case metadata_arg of
                   Some mds \<Rightarrow> zip spacy_docs (map Some mds)
                 | None \<Rightarrow> map (\<lambda>sd. (sd, None)) spacy_docs) of
           (Inl e, w2) \<Rightarrow> (Inl e, w2)
         | (Inr u, w2) \<Rightarrow> (Inr textcorpus, w2))"

text \<open>
  \<^verbatim>\<open>get_docs\<close> is a generator over the docs for which \<^verbatim>\<open>match_condition(doc) is True\<close>;
  with a limit it counts the matches and stops at the first one past the limit.
\<close>

fun get_docs_limit :: "(text_doc \<Rightarrow> bool) \<Rightarrow> int \<Rightarrow> world \<Rightarrow> int \<Rightarrow> nat list \<Rightarrow> nat list" where
  "get_docs_limit match_condition limit w n_matched_docs [] = []"
| "get_docs_limit match_condition limit w n_matched_docs (doc # rest) =
     (if match_condition (doc_heap w doc) then
        (if n_matched_docs + 1 > limit then []
         else doc # get_docs_limit match_condition limit w (n_matched_docs + 1) rest)
      else get_docs_limit match_condition limit w n_matched_docs rest)"

definition get_docs :: "world \<Rightarrow> nat \<Rightarrow> (text_doc \<Rightarrow> bool) \<Rightarrow> int option \<Rightarrow> nat list" where
  "get_docs w self match_condition limit =
     (case limit of
        None \<Rightarrow> filter (\<lambda>doc. match_condition (doc_heap w doc)) (docs (corpus_heap w self))
      | Some l \<Rightarrow> get_docs_limit match_condition l w 0 (docs (corpus_heap w self)))"

text \<open>The slice \<^verbatim>\<open>xs[k:]\<close>: a negative \<open>k\<close> counts from the end, and the start is clipped.\<close>

definition slice_from :: "'a list \<Rightarrow> int \<Rightarrow> 'a list" where
  "slice_from xs k = (if k < 0 then drop (nat (int (length xs) + k)) xs else drop (nat k) xs)"

text \<open>
  \<^verbatim>\<open>del self[index]\<close> on a corpus. The class defines \<^verbatim>\<open>__getitem__\<close>, \<^verbatim>\<open>__len__\<close> and
  \<^verbatim>\<open>__iter__\<close> and no \<^verbatim>\<open>__delitem__\<close>, so the statement raises TypeError (the object does
  not support item deletion) and deletes nothing.
\<close>

definition delitem :: "world \<Rightarrow> nat \<Rightarrow> int \<Rightarrow> (error + unit) \<times> world" where
  "delitem w self index = (Inl TypeError, w)"

text \<open>\<^verbatim>\<open>for doc in self[index + 1:]: doc.corpus_index -= 1\<close>\<close>

fun decrement_loop :: "world \<Rightarrow> nat list \<Rightarrow> (error + unit) \<times> world" where
  "decrement_loop w [] = (Inr (), w)"
| "decrement_loop w (doc # rest) =
     (case corpus_index (doc_heap w doc) of
        None \<Rightarrow> (Inl AttributeError, w)
      | Some i \<Rightarrow>
          decrement_loop
            (w\<lparr>doc_heap := (doc_heap w)(doc := (doc_heap w doc)\<lparr>corpus_index := Some (i - 1)\<rparr>)\<rparr>)
            rest)"

definition remove_doc :: "world \<Rightarrow> nat \<Rightarrow> int \<Rightarrow> (error + unit) \<times> world" where
  "remove_doc w self index =
     (case decrement_loop w (slice_from (docs (corpus_heap w self)) (index + 1)) of
        (Inl e, w1) \<Rightarrow> (Inl e, w1)
      | (Inr u, w1) \<Rightarrow> delitem w1 self index)"

text \<open>\<^verbatim>\<open>[doc.corpus_index for doc in ...]\<close>\<close>

fun corpus_indexes :: "world \<Rightarrow> nat list \<Rightarrow> error + int list" where
  "corpus_indexes w [] = Inr []"
| "corpus_indexes w (doc # rest) =
     (case corpus_index (doc_heap w doc) of
        None \<Rightarrow> Inl AttributeError
      | Some i \<Rightarrow> (case corpus_indexes w rest of Inl e \<Rightarrow> Inl e | Inr is \<Rightarrow> Inr (i # is)))"

text \<open>\<^verbatim>\<open>for index in remove_indexes: del self[index]\<close>\<close>

fun delete_loop :: "world \<Rightarrow> nat \<Rightarrow> int list \<Rightarrow> (error + unit) \<times> world" where
  "delete_loop w self [] = (Inr (), w)"
| "delete_loop w self (index # rest) =
     (case delitem w self index of
        (Inl e, w1) \<Rightarrow> (Inl e, w1)
      | (Inr u, w1) \<Rightarrow> delete_loop w1 self rest)"

text \<open>\<^verbatim>\<open>for i, doc in enumerate(self): doc.corpus_index = i\<close>\<close>

fun renumber :: "world \<Rightarrow> int \<Rightarrow> nat list \<Rightarrow> world" where
  "renumber w i [] = w"
| "renumber w i (doc # rest) =
     renumber (w\<lparr>doc_heap := (doc_heap w)(doc := (doc_heap w doc)\<lparr>corpus_index := Some i\<rparr>)\<rparr>)
       (i + 1) rest"

definition remove_docs ::
  "world \<Rightarrow> nat \<Rightarrow> (text_doc \<Rightarrow> bool) \<Rightarrow> int option \<Rightarrow> (error + unit) \<times> world" where
  "remove_docs w self match_condition limit =
     (case corpus_indexes w (get_docs w self match_condition limit) of
        Inl e \<Rightarrow> (Inl e, w)
      | Inr remove_indexes \<Rightarrow>
          (case delete_loop w self remove_indexes of
             (Inl e, w1) \<Rightarrow> (Inl e, w1)
           | (Inr u, w1) \<Rightarrow> (Inr (), renumber w1 0 (docs (corpus_heap w1 self)))))"

subsection \<open>A concrete document and corpus\<close>

text \<open>
  The text "Hi Bob": two tokens, \<^verbatim>\<open>Hi\<close> at character 0 and \<^verbatim>\<open>Bob\<close> at character 3, one
  sentence, and the entity \<^verbatim>\<open>Bob\<close>, the span of token 1. Every token is a word and the one
  bigram is the whole text. The pipeline is an English one.
\<close>

definition example_strings :: stringstore where
  "example_strings =
     \<lparr>ss_id = (\<lambda>s. if s = ''hi'' then 1 else if s = ''bob'' then 2
                    else if s = ''hi bob'' then 3 else if s = ''Hi'' then 4
                    else if s = ''Bob'' then 5 else if s = ''Hi Bob'' then 6 else 0),
      ss_str = (\<lambda>i. if i = 1 then ''hi'' else if i = 2 then ''bob''
                     else if i = 3 then ''hi bob'' else if i = 4 then ''Hi''
                     else if i = 5 then ''Bob'' else if i = 6 then ''Hi Bob'' else [])\<rparr>"

definition example_vocab :: vocab where
  "example_vocab = \<lparr>vocab_strings = example_strings\<rparr>"

definition hi_tok :: stoken where
  "hi_tok = \<lparr>tok_i = 0, tok_idx = 0, tok_text = ''Hi'', tok_lemma = ''hi''\<rparr>"

definition bob_tok :: stoken where
  "bob_tok = \<lparr>tok_i = 1, tok_idx = 3, tok_text = ''Bob'', tok_lemma = ''bob''\<rparr>"

definition bob_ent :: sspan where
  "bob_ent = \<lparr>span_start = 1, span_end = 2, span_text = ''Bob'', span_lemma = ''bob''\<rparr>"

definition hi_bob_span :: sspan where
  "hi_bob_span =
     \<lparr>span_start = 0, span_end = 2, span_text = ''Hi Bob'', span_lemma = ''hi bob''\<rparr>"

definition example_sdoc :: "string \<Rightarrow> sdoc" where
  "example_sdoc txt =
     \<lparr>text_with_ws = txt,
      sd_tokens = (if txt = ''Hi Bob'' then [hi_tok, bob_tok] else []),
      sd_sents = (if txt = ''Hi Bob'' then [hi_bob_span] else []),
      sd_vocab = example_vocab\<rparr>"

definition example_pipeline :: pipeline where
  "example_pipeline =
     \<lparr>pipe_lang = ''en'', pipe_vocab = example_vocab, pipe_call = example_sdoc,
      pipe = map example_sdoc\<rparr>"

definition example_collab :: "unit collaborators" where
  "example_collab =
     \<lparr>detect_language = (\<lambda>txt. if txt = ''Hallo Bob'' then ''de'' else ''en''),
      load_spacy = (\<lambda>l. example_pipeline),
      normalized_str = text_of,
      extract_words = (\<lambda>sd kw. sd_tokens sd),
      extract_ngrams = (\<lambda>sd n kw. if n = 2 \<and> length (sd_tokens sd) = 2
                                    then [hi_bob_span] else []),
      extract_named_entities = (\<lambda>sd kw. if length (sd_tokens sd) = 2 then [bob_ent] else []),
      extract_noun_chunks = (\<lambda>sd kw. []),
      keyterms_sgrank = (\<lambda>sd window_width n. []),
      keyterms_textrank = (\<lambda>sd n. []),
      keyterms_singlerank = (\<lambda>sd n. []),
      terms_to_semantic_network = (\<lambda>terms window_width edge_weighting. ()),
      sents_to_semantic_network = (\<lambda>sents edge_weighting. ())\<rparr>"

text \<open>The doc \<^verbatim>\<open>TextDoc('Hi Bob', spacy_pipeline=example_pipeline)\<close>.\<close>

definition example_doc :: text_doc where
  "example_doc =
     \<lparr>metadata = [], term_counts_memo = {#}, lang = ''en'',
      spacy_vocab = example_vocab, spacy_stringstore = example_strings,
      spacy_doc = example_sdoc ''Hi Bob'', corpus_index = None, corpus = None\<rparr>"

text \<open>
  A store with nothing in use, the world after \<^verbatim>\<open>corpus = TextCorpus('en')\<close>, and the world
  after two calls \<^verbatim>\<open>corpus.add_text('Hi Bob')\<close>.
\<close>

definition empty_world :: world where
  "empty_world =
     \<lparr>doc_heap = (\<lambda>a. example_doc), next_doc = 0,
      corpus_heap = (\<lambda>a. \<lparr>c_lang = [], c_spacy_pipeline = example_pipeline,
                          c_spacy_vocab = example_vocab,
                          c_spacy_stringstore = example_strings,
                          docs = [], n_docs = 0, n_sents = 0, n_tokens = 0\<rparr>),
      next_corpus = 0, stdout = []\<rparr>"

definition corpus_world :: world where
  "corpus_world = fst (TextCorpus_init example_collab empty_world ''en'')"

definition two_doc_world :: world where
  "two_doc_world =
     snd (add_text example_collab
            (snd (add_text example_collab corpus_world 0 ''Hi Bob'' None None))
            0 ''Hi Bob'' None None)"

subsection \<open>What a call of term_counts extracts\<close>

text \<open>
  The counter one round of the n-gram loop merges in, and the union of all the counters a
  call of \<^verbatim>\<open>term_counts\<close> merges in. Neither reads \<^verbatim>\<open>_term_counts\<close>.
\<close>

definition ngram_counter :: "'g collaborators \<Rightarrow> text_doc \<Rightarrow> lemmatize \<Rightarrow> int \<Rightarrow> nat multiset" where
  "ngram_counter C d lem n =
     (if n = 1 then mset (map (\<lambda>word. get_id C d lem (Tok word)) (words C d []))
      else mset (map (\<lambda>ngram. get_id C d lem (Spn ngram)) (ngrams C d n [])))"

definition extracted ::
  "'g collaborators \<Rightarrow> text_doc \<Rightarrow> lemmatize \<Rightarrow> int \<times> int \<Rightarrow> bool \<Rightarrow> bool \<Rightarrow> bool \<Rightarrow> nat multiset" where
  "extracted C d lem ngram_range include_nes include_ncs include_kts =
     fold (\<lambda>n acc. acc \<union># ngram_counter C d lem n) [fst ngram_range..snd ngram_range] {#}
     \<union># (if include_nes then mset (map (\<lambda>ne. get_id C d lem (Spn ne)) (named_entities C d []))
         else {#})
     \<union># (if include_ncs then mset (map (\<lambda>nc. get_id C d lem (Spn nc)) (noun_chunks C d []))
         else {#})
     \<union># (if include_kts
         then mset (map (\<lambda>(kt, _). ss_id (spacy_stringstore d) kt)
                      (keyterms_sgrank C (spacy_doc d) 1500 (NInt 10)))
         else {#})"

subsection \<open>Reading the store\<close>

text \<open>
  What \<^verbatim>\<open>from_texts\<close> puts into a doc: the parsed document and the metadata
  (\<^verbatim>\<open>{} if metadata is None else metadata\<close>).
\<close>

definition doc_content :: "world \<Rightarrow> nat \<Rightarrow> sdoc \<times> (string \<times> string) list" where
  "doc_content w doc = (spacy_doc (doc_heap w doc), metadata (doc_heap w doc))"

definition md_or_empty :: "(string \<times> string) list option \<Rightarrow> (string \<times> string) list" where
  "md_or_empty md = (case md of None \<Rightarrow> [] | Some m \<Rightarrow> m)"

text \<open>The example doc after \<^verbatim>\<open>doc.term_counts(lemmatize=True, ngram_range=(1, 2))\<close>.\<close>

definition counted_doc :: text_doc where
  "counted_doc = snd (term_counts example_collab example_doc LTrue (1, 2) False False False)"

section \<open>Properties\<close>

lemmas example_defs = example_collab_def example_doc_def example_sdoc_def example_pipeline_def
  example_strings_def example_vocab_def hi_tok_def bob_tok_def bob_ent_def hi_bob_span_def

lemmas world_defs = two_doc_world_def corpus_world_def TextCorpus_init_def empty_world_def
  add_text_def TextDoc_init_def new_doc_def append_doc_def Let_def example_collab_def
  example_pipeline_def lang_or_detect_def


subsection \<open>Dispatch on names\<close>

text \<open>
  C7. \<^verbatim>\<open>key_terms\<close> raises ValueError exactly when \<^verbatim>\<open>algorithm\<close> is none of 'sgrank',
  'textrank', 'singlerank', and \<^verbatim>\<open>as_semantic_network\<close> raises ValueError exactly when
  \<^verbatim>\<open>nodes\<close> is neither 'terms' nor 'sents'. Neither raises anything else, and for a valid
  name the result is the result of the helper for that name, called with the arguments the
  source passes (the helpers being functions of other modules, taken as total).
\<close>

theorem key_terms_and_network_dispatch:
  "(key_terms C d algorithm n = Inl ValueError
      \<longleftrightarrow> algorithm \<notin> {''sgrank'', ''textrank'', ''singlerank''})
   \<and> (isl (key_terms C d algorithm n) \<longleftrightarrow> key_terms C d algorithm n = Inl ValueError)
   \<and> key_terms C d ''sgrank'' n = Inr (keyterms_sgrank C (spacy_doc d) 1500 n)
   \<and> key_terms C d ''textrank'' n = Inr (keyterms_textrank C (spacy_doc d) n)
   \<and> key_terms C d ''singlerank'' n = Inr (keyterms_singlerank C (spacy_doc d) n)
   \<and> (as_semantic_network C d nodes edge_weighting window_width = Inl ValueError
      \<longleftrightarrow> nodes \<notin> {''terms'', ''sents''})
   \<and> (isl (as_semantic_network C d nodes edge_weighting window_width)
      \<longleftrightarrow> as_semantic_network C d nodes edge_weighting window_width = Inl ValueError)
   \<and> as_semantic_network C d ''terms'' edge_weighting window_width =
       Inr (terms_to_semantic_network C (words C d []) window_width
              (if edge_weighting = ''default'' then ''cooc_freq'' else edge_weighting))
   \<and> as_semantic_network C d ''sents'' edge_weighting window_width =
       Inr (sents_to_semantic_network C (sd_sents (spacy_doc d))
              (if edge_weighting = ''default'' then ''cosine'' else edge_weighting))"
  by (simp add: key_terms_def as_semantic_network_def)

theorem key_terms_and_network_dispatch_witness:
  "key_terms example_collab example_doc ''pagerank'' (NInt 10) = Inl ValueError
   \<and> key_terms example_collab example_doc ''textrank'' (NInt 10) = Inr []
   \<and> as_semantic_network example_collab example_doc ''words'' ''default'' 10 = Inl ValueError
   \<and> as_semantic_network example_collab example_doc ''sents'' ''default'' 10 = Inr ()"
  using key_terms_and_network_dispatch [of example_collab example_doc "''pagerank''" "NInt 10"
      "''words''" "''default''" 10]
  by (simp add: example_collab_def)

subsection \<open>The constructor's language check\<close>

text \<open>
  C4, as the code has it. Given a raw string and a pipeline, the constructor raises
  ValueError exactly when the pipeline's language differs from the document's (the \<^verbatim>\<open>lang\<close>
  argument, or the detected language when \<^verbatim>\<open>lang\<close> is None or empty), and raises nothing
  else. Given a parsed spaCy document and a pipeline it never raises: \<^verbatim>\<open>lang\<close> is not read
  and the doc takes the pipeline's language.
\<close>

theorem TextDoc_init_language_check:
  "(TextDoc_init C (Str txt) (Some p) lang_arg md = Inl ValueError
      \<longleftrightarrow> pipe_lang p \<noteq> lang_or_detect C lang_arg txt)
   \<and> (isl (TextDoc_init C (Str txt) (Some p) lang_arg md)
      \<longleftrightarrow> pipe_lang p \<noteq> lang_or_detect C lang_arg txt)
   \<and> \<not> isl (TextDoc_init C (SDoc sd) (Some p) lang_arg md)
   \<and> map_sum id lang (TextDoc_init C (SDoc sd) (Some p) lang_arg md) = Inr (pipe_lang p)"
  by (simp add: TextDoc_init_def Let_def)

theorem TextDoc_init_language_check_witness:
  "TextDoc_init example_collab (Str ''Hallo Bob'') (Some example_pipeline) None None
     = Inl ValueError
   \<and> TextDoc_init example_collab (Str ''Hi Bob'') (Some example_pipeline) (Some ''de'') None
     = Inl ValueError
   \<and> \<not> isl (TextDoc_init example_collab (Str ''Hi Bob'') (Some example_pipeline) None None)"
  using TextDoc_init_language_check [of example_collab "''Hallo Bob''" example_pipeline None None]
    TextDoc_init_language_check [of example_collab "''Hi Bob''" example_pipeline "Some ''de''" None]
    TextDoc_init_language_check [of example_collab "''Hi Bob''" example_pipeline None None]
  by (simp add: example_collab_def example_pipeline_def lang_or_detect_def)

text \<open>
  C4 as stated fails for a parsed document: the German text "Hallo Bob", parsed, passed
  with \<^verbatim>\<open>lang='de'\<close> and an English pipeline, gives a doc whose language is 'en' and no
  ValueError.
\<close>

theorem TextDoc_init_sdoc_counterexample:
  "pipe_lang example_pipeline = ''en''
   \<and> detect_language example_collab (text_with_ws (example_sdoc ''Hallo Bob'')) = ''de''
   \<and> TextDoc_init example_collab (SDoc (example_sdoc ''Hallo Bob'')) (Some example_pipeline)
        (Some ''de'') None \<noteq> Inl ValueError
   \<and> map_sum id lang
        (TextDoc_init example_collab (SDoc (example_sdoc ''Hallo Bob'')) (Some example_pipeline)
           (Some ''de'') None) = Inr ''en''"
  by (simp add: TextDoc_init_def example_pipeline_def example_collab_def example_sdoc_def)

subsection \<open>Removal and the corpus counters\<close>

lemma decrement_loop_corpus_heap:
  "corpus_heap (snd (decrement_loop w rs)) = corpus_heap w"
  by (induction w rs rule: decrement_loop.induct) (auto split: option.splits)

lemma renumber_corpus_heap: "corpus_heap (renumber w i rs) = corpus_heap w"
  by (induction w i rs rule: renumber.induct) auto

lemma delete_loop_world: "snd (delete_loop w self is) = w"
  by (cases "is") (auto simp: delitem_def)

lemma remove_doc_corpus_heap: "corpus_heap (snd (remove_doc w self index)) = corpus_heap w"
proof -
  obtain r w1 where
    dl: "decrement_loop w (slice_from (docs (corpus_heap w self)) (index + 1)) = (r, w1)"
    by (cases "decrement_loop w (slice_from (docs (corpus_heap w self)) (index + 1))")
  have "corpus_heap w1 = corpus_heap w"
    using decrement_loop_corpus_heap [of w "slice_from (docs (corpus_heap w self)) (index + 1)"] dl
    by simp
  then show ?thesis
    by (cases r) (simp_all add: remove_doc_def dl delitem_def)
qed

lemma remove_docs_corpus_heap:
  "corpus_heap (snd (remove_docs w self match_condition limit)) = corpus_heap w"
proof (cases "corpus_indexes w (get_docs w self match_condition limit)")
  case (Inl e)
  then show ?thesis by (simp add: remove_docs_def)
next
  case (Inr idxs)
  obtain r w1 where dl: "delete_loop w self idxs = (r, w1)"
    by (cases "delete_loop w self idxs")
  have "w1 = w" using delete_loop_world [of w self idxs] dl by simp
  then show ?thesis
    by (cases r) (simp_all add: remove_docs_def Inr dl renumber_corpus_heap)
qed

text \<open>
  C8. Whatever the corpus, the index, the predicate and the limit, and whether the call
  returns or raises, the world \<^verbatim>\<open>remove_doc\<close> and \<^verbatim>\<open>remove_docs\<close> leave behind has the
  corpus's \<^verbatim>\<open>n_docs\<close>, \<^verbatim>\<open>n_sents\<close> and \<^verbatim>\<open>n_tokens\<close> as they were before the call.
\<close>

theorem removal_keeps_aggregates:
  "n_docs (corpus_heap (snd (remove_doc w self index)) self) = n_docs (corpus_heap w self)
   \<and> n_sents (corpus_heap (snd (remove_doc w self index)) self) = n_sents (corpus_heap w self)
   \<and> n_tokens (corpus_heap (snd (remove_doc w self index)) self) = n_tokens (corpus_heap w self)
   \<and> n_docs (corpus_heap (snd (remove_docs w self match_condition limit)) self)
       = n_docs (corpus_heap w self)
   \<and> n_sents (corpus_heap (snd (remove_docs w self match_condition limit)) self)
       = n_sents (corpus_heap w self)
   \<and> n_tokens (corpus_heap (snd (remove_docs w self match_condition limit)) self)
       = n_tokens (corpus_heap w self)"
  by (simp add: remove_doc_corpus_heap remove_docs_corpus_heap)

theorem removal_keeps_aggregates_witness:
  "n_docs (corpus_heap two_doc_world 0) = 2
   \<and> n_docs (corpus_heap (snd (remove_doc two_doc_world 0 0)) 0) = 2
   \<and> n_docs (corpus_heap (snd (remove_docs two_doc_world 0 (\<lambda>d. True) None)) 0) = 2"
  using removal_keeps_aggregates [of two_doc_world 0 0 "\<lambda>d. True" None]
  by (simp add: two_doc_world_def corpus_world_def TextCorpus_init_def empty_world_def
      add_text_def TextDoc_init_def new_doc_def append_doc_def Let_def example_collab_def
      example_pipeline_def lang_or_detect_def)

subsection \<open>Removal and corpus_index\<close>

text \<open>
  C1, evaluated. A corpus of two docs, indexed 0 and 1. \<^verbatim>\<open>remove_doc(0)\<close> lowers the
  second doc's \<^verbatim>\<open>corpus_index\<close> to 0 and then raises TypeError at \<^verbatim>\<open>del self[index]\<close>: no
  doc is deleted, and the doc at position 1 is left with index 0. \<^verbatim>\<open>remove_docs\<close> with a
  predicate that matches raises the same TypeError and removes nothing.
\<close>

theorem remove_doc_breaks_corpus_index:
  "docs (corpus_heap two_doc_world 0) = [0, 1]
   \<and> map (\<lambda>doc. corpus_index (doc_heap two_doc_world doc)) [0, 1] = [Some 0, Some 1]
   \<and> fst (remove_doc two_doc_world 0 0) = Inl TypeError
   \<and> docs (corpus_heap (snd (remove_doc two_doc_world 0 0)) 0) = [0, 1]
   \<and> map (\<lambda>doc. corpus_index (doc_heap (snd (remove_doc two_doc_world 0 0)) doc)) [0, 1]
       = [Some 0, Some 0]
   \<and> remove_docs two_doc_world 0 (\<lambda>d. True) None = (Inl TypeError, two_doc_world)"
  by (simp add: remove_doc_def remove_docs_def get_docs_def slice_from_def delitem_def
      world_defs)

subsection \<open>Entities and words in as_terms_list\<close>

text \<open>
  C2, evaluated. For "Hi Bob" with the entity \<^verbatim>\<open>Bob\<close>, \<^verbatim>\<open>as_terms_list\<close> with \<^verbatim>\<open>words\<close>,
  \<^verbatim>\<open>named_entities\<close> and \<^verbatim>\<open>dedupe\<close> all True yields the entity and then the word \<^verbatim>\<open>Bob\<close>,
  which covers the same tokens: the word filter compares the character offset \<^verbatim>\<open>word.idx\<close>
  (3 here) with the entity's token indices (1, 2).
\<close>

theorem as_terms_list_word_repeats_entity:
  "terms_of example_collab example_doc True None True True []
     = [Spn bob_ent, Tok hi_tok, Tok bob_tok]
   \<and> token_span (Tok bob_tok) = token_span (Spn bob_ent)
   \<and> as_terms_list example_collab example_doc True None True True True []
     = [''bob'', ''hi'', ''bob'']"
  by (simp add: as_terms_list_def terms_of_def named_entities_def words_def
      example_collab_def example_doc_def example_sdoc_def hi_tok_def bob_tok_def bob_ent_def)

subsection \<open>Adding a doc that a corpus owns\<close>

text \<open>
  C5. Let \<open>doc\<close> be a doc in the store that has a \<^verbatim>\<open>corpus_index\<close> and whose language is
  the corpus's. Then \<^verbatim>\<open>add_doc\<close> returns, the corpus's list of docs grows by one new
  object, which is not \<open>doc\<close> and holds \<open>doc\<close>'s fields with \<^verbatim>\<open>corpus_index\<close> and \<^verbatim>\<open>corpus\<close>
  set for this corpus, and \<open>doc\<close> itself is as it was: its \<^verbatim>\<open>corpus_index\<close> and \<^verbatim>\<open>corpus\<close>
  are unchanged.
\<close>

theorem add_doc_copies_owned_doc:
  assumes "doc < next_doc w"
    and "corpus_index (doc_heap w doc) \<noteq> None"
    and "lang (doc_heap w doc) = c_lang (corpus_heap w self)"
  shows "fst (add_doc w self doc print_warning) = Inr ()
    \<and> docs (corpus_heap (snd (add_doc w self doc print_warning)) self)
        = docs (corpus_heap w self) @ [next_doc w]
    \<and> next_doc w \<noteq> doc
    \<and> doc_heap (snd (add_doc w self doc print_warning)) (next_doc w)
        = (doc_heap w doc)\<lparr>corpus_index := Some (n_docs (corpus_heap w self)),
                           corpus := Some self\<rparr>
    \<and> doc_heap (snd (add_doc w self doc print_warning)) doc = doc_heap w doc
    \<and> corpus_index (doc_heap (snd (add_doc w self doc print_warning)) doc)
        = corpus_index (doc_heap w doc)
    \<and> corpus (doc_heap (snd (add_doc w self doc print_warning)) doc) = corpus (doc_heap w doc)"
  using assms
  by (auto simp: add_doc_def deepcopy_def new_doc_def append_doc_def Let_def)

theorem add_doc_copies_owned_doc_witness:
  "(0::nat) < next_doc two_doc_world
   \<and> corpus_index (doc_heap two_doc_world 0) = Some 0
   \<and> fst (add_doc two_doc_world 0 0 True) = Inr ()
   \<and> docs (corpus_heap (snd (add_doc two_doc_world 0 0 True)) 0) = [0, 1, 2]
   \<and> corpus_index (doc_heap (snd (add_doc two_doc_world 0 0 True)) 2) = Some 2
   \<and> corpus_index (doc_heap (snd (add_doc two_doc_world 0 0 True)) 0) = Some 0"
proof -
  have a: "(0::nat) < next_doc two_doc_world" by (simp add: world_defs)
  have b: "corpus_index (doc_heap two_doc_world 0) \<noteq> None" by (simp add: world_defs)
  have c: "lang (doc_heap two_doc_world 0) = c_lang (corpus_heap two_doc_world 0)"
    by (simp add: world_defs)
  have d: "next_doc two_doc_world = 2" "docs (corpus_heap two_doc_world 0) = [0, 1]"
      "n_docs (corpus_heap two_doc_world 0) = 2" "corpus_index (doc_heap two_doc_world 0) = Some 0"
    by (simp_all add: world_defs)
  show ?thesis
    using add_doc_copies_owned_doc [OF a b c, of True] d by simp
qed

subsection \<open>term_counts\<close>

lemma memo_irrelevant [simp]:
  "words C (d\<lparr>term_counts_memo := m\<rparr>) kw = words C d kw"
  "ngrams C (d\<lparr>term_counts_memo := m\<rparr>) n kw = ngrams C d n kw"
  "named_entities C (d\<lparr>term_counts_memo := m\<rparr>) kw = named_entities C d kw"
  "noun_chunks C (d\<lparr>term_counts_memo := m\<rparr>) kw = noun_chunks C d kw"
  "get_id C (d\<lparr>term_counts_memo := m\<rparr>) lem x = get_id C d lem x"
  "key_terms C (d\<lparr>term_counts_memo := m\<rparr>) a k = key_terms C d a k"
  by (simp_all add: words_def ngrams_def named_entities_def noun_chunks_def get_id_def
      key_terms_def split: lemmatize.splits)

lemma ngram_counter_memo [simp]:
  "ngram_counter C (d\<lparr>term_counts_memo := m\<rparr>) lem n = ngram_counter C d lem n"
  by (simp add: ngram_counter_def)

lemma extracted_memo [simp]:
  "extracted C (d\<lparr>term_counts_memo := m\<rparr>) lem r nes ncs kts = extracted C d lem r nes ncs kts"
  by (simp add: extracted_def)

lemma count_ngrams_eq:
  "count_ngrams C lem n d = d\<lparr>term_counts_memo := term_counts_memo d \<union># ngram_counter C d lem n\<rparr>"
  by (simp add: count_ngrams_def ngram_counter_def)

lemma fold_union_acc:
  "fold (\<lambda>n acc. acc \<union># f n) ns (m \<union># a) = m \<union># fold (\<lambda>n acc. acc \<union># f n) ns a"
  by (induction ns arbitrary: a) (simp_all add: subset_mset.sup_assoc)

lemma fold_count_ngrams:
  "fold (count_ngrams C lem) ns d =
     d\<lparr>term_counts_memo :=
         term_counts_memo d \<union># fold (\<lambda>n acc. acc \<union># ngram_counter C d lem n) ns {#}\<rparr>"
proof (induction ns arbitrary: d)
  case Nil
  then show ?case by simp
next
  case (Cons n ns)
  let ?d1 = "d\<lparr>term_counts_memo := term_counts_memo d \<union># ngram_counter C d lem n\<rparr>"
  have acc: "fold (\<lambda>n acc. acc \<union># ngram_counter C d lem n) ns (ngram_counter C d lem n)
      = ngram_counter C d lem n \<union># fold (\<lambda>n acc. acc \<union># ngram_counter C d lem n) ns {#}"
    using fold_union_acc [of "ngram_counter C d lem" ns "ngram_counter C d lem n" "{#}"]
    by simp
  have "fold (count_ngrams C lem) (n # ns) d = fold (count_ngrams C lem) ns ?d1"
    by (simp only: fold_Cons comp_apply count_ngrams_eq)
  also have "\<dots> = ?d1\<lparr>term_counts_memo :=
       term_counts_memo ?d1 \<union># fold (\<lambda>n acc. acc \<union># ngram_counter C ?d1 lem n) ns {#}\<rparr>"
    by (rule Cons.IH)
  also have "\<dots> = d\<lparr>term_counts_memo :=
       term_counts_memo d \<union># fold (\<lambda>n acc. acc \<union># ngram_counter C d lem n) (n # ns) {#}\<rparr>"
    by (simp add: acc subset_mset.sup_assoc)
  finally show ?case .
qed

lemma term_counts_eq:
  "term_counts C d lem r nes ncs kts =
     (Inr (term_counts_memo d \<union># extracted C d lem r nes ncs kts),
      d\<lparr>term_counts_memo := term_counts_memo d \<union># extracted C d lem r nes ncs kts\<rparr>)"
  by (simp add: term_counts_def fold_count_ngrams extracted_def Let_def key_terms_def
      subset_mset.sup_assoc)

text \<open>
  C3. A second call of \<^verbatim>\<open>term_counts\<close> with the same arguments, made on the doc the first
  call left, returns what the first call returned and leaves the doc as it was. The call
  never raises and returns the memoized counter. That counter is the union, the maximum
  per key, of the counter before the call and the counter the same call gives on a doc
  with nothing memoized: a term already counted is not counted twice.
\<close>

theorem term_counts_idempotent:
  "term_counts C (snd (term_counts C d lem r nes ncs kts)) lem r nes ncs kts
     = term_counts C d lem r nes ncs kts
   \<and> fst (term_counts C d lem r nes ncs kts)
     = Inr (term_counts_memo (snd (term_counts C d lem r nes ncs kts)))
   \<and> term_counts_memo (snd (term_counts C d lem r nes ncs kts))
     = term_counts_memo d
       \<union># term_counts_memo (snd (term_counts C (d\<lparr>term_counts_memo := {#}\<rparr>) lem r nes ncs kts))
   \<and> (\<forall>key. count (term_counts_memo (snd (term_counts C d lem r nes ncs kts))) key
        = max (count (term_counts_memo d) key)
            (count (term_counts_memo
               (snd (term_counts C (d\<lparr>term_counts_memo := {#}\<rparr>) lem r nes ncs kts))) key))"
  by (simp add: term_counts_eq subset_mset.sup_assoc)


theorem term_counts_idempotent_witness:
  "term_counts_memo (snd (term_counts example_collab example_doc LTrue (1, 2) True False False))
     = {#1, 2, 3#}
   \<and> fst (term_counts example_collab
            (snd (term_counts example_collab example_doc LTrue (1, 2) True False False))
            LTrue (1, 2) True False False)
     = Inr {#1, 2, 3#}
   \<and> term_counts_memo (snd (term_counts example_collab
            (snd (term_counts example_collab example_doc LTrue (1, 2) True False False))
            LTrue (1, 2) True False False))
     = {#1, 2, 3#}"
proof -
  have e: "term_counts example_collab example_doc LTrue (1, 2) True False False
      = (Inr {#1, 2, 3#}, example_doc\<lparr>term_counts_memo := {#1, 2, 3#}\<rparr>)"
    by (simp add: term_counts_def count_ngrams_def get_id_def words_def ngrams_def
        named_entities_def upto.simps example_defs)
  have i: "term_counts example_collab
      (snd (term_counts example_collab example_doc LTrue (1, 2) True False False))
      LTrue (1, 2) True False False
    = term_counts example_collab example_doc LTrue (1, 2) True False False"
    by (rule term_counts_idempotent [THEN conjunct1])
  show ?thesis
    unfolding i by (simp add: e)
qed

subsection \<open>as_bag_of_terms\<close>

text \<open>
  C10. With \<^verbatim>\<open>binary=True\<close> and \<^verbatim>\<open>idf=None\<close>, \<^verbatim>\<open>as_bag_of_terms\<close> returns a counter whose
  keys are the memoized terms and whose every value is 1; the result is the same for
  \<^verbatim>\<open>normalized\<close> True and False, whatever \<^verbatim>\<open>idf\<close> is. An empty \<^verbatim>\<open>idf\<close>, or a weighting other
  than 'tfidf', gives the same result as \<^verbatim>\<open>idf=None\<close>. For 'tfidf' with a non-empty
  \<^verbatim>\<open>idf\<close> the scaling is applied after the binary step: when \<^verbatim>\<open>idf\<close> has every memoized term
  the keys are still the memoized terms and the value at each key is \<open>1 * idf[key]\<close>, and
  when \<^verbatim>\<open>idf\<close> lacks one the call raises KeyError.
\<close>

theorem as_bag_of_terms_binary:
  "(\<exists>term_weights.
      fst (as_bag_of_terms C d weighting normalized True None lem r nes ncs kts)
        = Inr term_weights
      \<and> dom term_weights
        = set_mset (term_counts_memo
            (snd (as_bag_of_terms C d weighting normalized True None lem r nes ncs kts)))
      \<and> (\<forall>key val. term_weights key = Some val \<longrightarrow> val = 1))
   \<and> as_bag_of_terms C d weighting True True None lem r nes ncs kts
     = as_bag_of_terms C d weighting False True None lem r nes ncs kts
   \<and> as_bag_of_terms C d weighting normalized True (Some []) lem r nes ncs kts
     = as_bag_of_terms C d weighting normalized True None lem r nes ncs kts
   \<and> (weighting \<noteq> ''tfidf'' \<longrightarrow>
       as_bag_of_terms C d weighting normalized True idf lem r nes ncs kts
       = as_bag_of_terms C d weighting normalized True None lem r nes ncs kts)
   \<and> as_bag_of_terms C d weighting True True idf lem r nes ncs kts
     = as_bag_of_terms C d weighting False True idf lem r nes ncs kts
   \<and> (m \<noteq> []
       \<and> \<not> (\<exists>key \<in># term_counts_memo
                (snd (as_bag_of_terms C d ''tfidf'' normalized True (Some m) lem r nes ncs kts)).
              map_of m key = None) \<longrightarrow>
       (\<exists>term_weights.
          fst (as_bag_of_terms C d ''tfidf'' normalized True (Some m) lem r nes ncs kts)
            = Inr term_weights
          \<and> dom term_weights
            = set_mset (term_counts_memo
                (snd (as_bag_of_terms C d ''tfidf'' normalized True (Some m) lem r nes ncs kts)))
          \<and> (\<forall>key val. term_weights key = Some val \<longrightarrow>
                (\<exists>w. map_of m key = Some w \<and> val = 1 * w))))
   \<and> (m \<noteq> []
       \<and> (\<exists>key \<in># term_counts_memo
              (snd (as_bag_of_terms C d ''tfidf'' normalized True (Some m) lem r nes ncs kts)).
            map_of m key = None) \<longrightarrow>
       fst (as_bag_of_terms C d ''tfidf'' normalized True (Some m) lem r nes ncs kts)
         = Inl KeyError)"
proof -
  let ?tc = "term_counts_memo d \<union># extracted C d lem r nes ncs kts"
  let ?ones = "\<lambda>key. if key \<in># ?tc then Some (1::real) else None"
  have res: "as_bag_of_terms C d weighting normalized True None lem r nes ncs kts
      = (Inr ?ones, d\<lparr>term_counts_memo := ?tc\<rparr>)"
    for normalized
    by (simp add: as_bag_of_terms_def term_counts_eq)
  have a: "\<exists>term_weights.
      fst (as_bag_of_terms C d weighting normalized True None lem r nes ncs kts)
        = Inr term_weights
      \<and> dom term_weights
        = set_mset (term_counts_memo
            (snd (as_bag_of_terms C d weighting normalized True None lem r nes ncs kts)))
      \<and> (\<forall>key val. term_weights key = Some val \<longrightarrow> val = 1)"
    unfolding res by (auto simp: dom_def split: if_splits)
  have b: "as_bag_of_terms C d weighting True True None lem r nes ncs kts
     = as_bag_of_terms C d weighting False True None lem r nes ncs kts"
    by (simp add: res)
  have c: "as_bag_of_terms C d weighting normalized True (Some []) lem r nes ncs kts
     = as_bag_of_terms C d weighting normalized True None lem r nes ncs kts"
    by (simp add: as_bag_of_terms_def term_counts_eq)
  have e: "weighting \<noteq> ''tfidf'' \<longrightarrow>
       as_bag_of_terms C d weighting normalized True idf lem r nes ncs kts
       = as_bag_of_terms C d weighting normalized True None lem r nes ncs kts"
    by (cases idf) (simp_all add: as_bag_of_terms_def term_counts_eq)
  have f: "as_bag_of_terms C d weighting True True idf lem r nes ncs kts
     = as_bag_of_terms C d weighting False True idf lem r nes ncs kts"
    by (simp add: as_bag_of_terms_def term_counts_eq)
  have memo: "term_counts_memo
      (snd (as_bag_of_terms C d ''tfidf'' normalized True (Some m) lem r nes ncs kts)) = ?tc"
    by (simp add: as_bag_of_terms_def term_counts_eq)
  have scaled: "as_bag_of_terms C d ''tfidf'' normalized True (Some m) lem r nes ncs kts
      = (Inr (\<lambda>key. case (?ones key, map_of m key) of
                      (Some val, Some w) \<Rightarrow> Some (val * w)
                    | _ \<Rightarrow> None),
         d\<lparr>term_counts_memo := ?tc\<rparr>)"
    if "m \<noteq> []" "\<not> (\<exists>key \<in># ?tc. map_of m key = None)"
    using that by (simp add: as_bag_of_terms_def term_counts_eq)
  have g: "m \<noteq> []
       \<and> \<not> (\<exists>key \<in># term_counts_memo
                (snd (as_bag_of_terms C d ''tfidf'' normalized True (Some m) lem r nes ncs kts)).
              map_of m key = None) \<longrightarrow>
       (\<exists>term_weights.
          fst (as_bag_of_terms C d ''tfidf'' normalized True (Some m) lem r nes ncs kts)
            = Inr term_weights
          \<and> dom term_weights
            = set_mset (term_counts_memo
                (snd (as_bag_of_terms C d ''tfidf'' normalized True (Some m) lem r nes ncs kts)))
          \<and> (\<forall>key val. term_weights key = Some val \<longrightarrow>
                (\<exists>w. map_of m key = Some w \<and> val = 1 * w)))"
  proof
    assume h: "m \<noteq> []
       \<and> \<not> (\<exists>key \<in># term_counts_memo
                (snd (as_bag_of_terms C d ''tfidf'' normalized True (Some m) lem r nes ncs kts)).
              map_of m key = None)"
    then have h1: "m \<noteq> []" and h2: "\<not> (\<exists>key \<in># ?tc. map_of m key = None)"
      unfolding memo by blast+
    let ?tw = "\<lambda>key. case (?ones key, map_of m key) of
                      (Some val, Some w) \<Rightarrow> Some (val * w)
                    | _ \<Rightarrow> None"
    have "?tw key \<noteq> None \<longleftrightarrow> key \<in># ?tc" for key
    proof (cases "key \<in># ?tc")
      case True
      then have "map_of m key \<noteq> None" using h2 by auto
      then obtain w where "map_of m key = Some w" by auto
      then show ?thesis using True by simp
    next
      case False
      then show ?thesis by simp
    qed
    then have d1: "dom ?tw = set_mset ?tc"
      unfolding dom_def by blast
    have v1: "\<forall>key val. ?tw key = Some val \<longrightarrow> (\<exists>w. map_of m key = Some w \<and> val = 1 * w)"
      by (auto split: if_splits option.splits)
    show "\<exists>term_weights.
          fst (as_bag_of_terms C d ''tfidf'' normalized True (Some m) lem r nes ncs kts)
            = Inr term_weights
          \<and> dom term_weights
            = set_mset (term_counts_memo
                (snd (as_bag_of_terms C d ''tfidf'' normalized True (Some m) lem r nes ncs kts)))
          \<and> (\<forall>key val. term_weights key = Some val \<longrightarrow>
                (\<exists>w. map_of m key = Some w \<and> val = 1 * w))"
      unfolding scaled [OF h1 h2] fst_conv snd_conv using d1 v1 by (intro exI [of _ ?tw]) simp
  qed
  have k: "m \<noteq> []
       \<and> (\<exists>key \<in># term_counts_memo
              (snd (as_bag_of_terms C d ''tfidf'' normalized True (Some m) lem r nes ncs kts)).
            map_of m key = None) \<longrightarrow>
       fst (as_bag_of_terms C d ''tfidf'' normalized True (Some m) lem r nes ncs kts)
         = Inl KeyError"
    unfolding memo by (simp add: as_bag_of_terms_def term_counts_eq)
  from a b c e f g k show ?thesis by blast
qed

theorem as_bag_of_terms_binary_witness:
  "map_sum id (\<lambda>term_weights. map term_weights [0, 1, 2, 3])
     (fst (as_bag_of_terms example_collab example_doc ''tf'' True True None LTrue (1, 2)
             True False False))
   = Inr [None, Some 1, Some 1, Some 1]
   \<and> map_sum id (\<lambda>term_weights. map term_weights [0, 1, 2, 3])
     (fst (as_bag_of_terms example_collab example_doc ''tfidf'' True True
             (Some [(1, 2), (2, 3), (3, 4)]) LTrue (1, 2) True False False))
   = Inr [None, Some 2, Some 3, Some 4]
   \<and> fst (as_bag_of_terms example_collab example_doc ''tfidf'' True True
             (Some [(1, 2), (2, 3)]) LTrue (1, 2) True False False)
   = Inl KeyError"
proof -
  have e: "term_counts example_collab example_doc LTrue (1, 2) True False False
      = (Inr {#1, 2, 3#}, example_doc\<lparr>term_counts_memo := {#1, 2, 3#}\<rparr>)"
    by (simp add: term_counts_def count_ngrams_def get_id_def words_def ngrams_def
        named_entities_def upto.simps example_defs)
  have m: "term_counts_memo (snd (as_bag_of_terms example_collab example_doc weighting True True
      idf LTrue (1, 2) True False False)) = {#1, 2, 3#}" for weighting idf
    by (cases idf) (simp_all add: as_bag_of_terms_def e)
  note plain = as_bag_of_terms_binary [THEN conjunct1]
  note scaled = as_bag_of_terms_binary [THEN conjunct2, THEN conjunct2, THEN conjunct2,
      THEN conjunct2, THEN conjunct2, THEN conjunct1, rule_format]
  note missing = as_bag_of_terms_binary [THEN conjunct2, THEN conjunct2, THEN conjunct2,
      THEN conjunct2, THEN conjunct2, THEN conjunct2, rule_format]
  have p1: "map_sum id (\<lambda>term_weights. map term_weights [0, 1, 2, 3])
     (fst (as_bag_of_terms example_collab example_doc ''tf'' True True None LTrue (1, 2)
             True False False))
     = Inr [None, Some 1, Some 1, Some 1]"
  proof -
    from plain [of example_collab example_doc "''tf''" True LTrue "(1, 2)" True False False]
    obtain tw where tw: "fst (as_bag_of_terms example_collab example_doc ''tf'' True True None
          LTrue (1, 2) True False False) = Inr tw"
        "dom tw = set_mset (term_counts_memo (snd (as_bag_of_terms example_collab example_doc
           ''tf'' True True None LTrue (1, 2) True False False)))"
        "\<forall>key val. tw key = Some val \<longrightarrow> val = 1"
      by blast
    have d: "dom tw = {1, 2, 3}" using tw(2) unfolding m by simp
    have "tw 0 = None" using d by (auto simp: dom_def)
    moreover have "tw 1 = Some 1" "tw 2 = Some 1" "tw 3 = Some 1"
      using d tw(3) by (auto simp: dom_def)
    ultimately show ?thesis by (simp add: tw(1))
  qed
  have p2: "map_sum id (\<lambda>term_weights. map term_weights [0, 1, 2, 3])
     (fst (as_bag_of_terms example_collab example_doc ''tfidf'' True True
             (Some [(1, 2), (2, 3), (3, 4)]) LTrue (1, 2) True False False))
     = Inr [None, Some 2, Some 3, Some 4]"
  proof -
    have hyp: "[(1::nat, 2::real), (2, 3), (3, 4)] \<noteq> []
       \<and> \<not> (\<exists>key \<in># term_counts_memo
                (snd (as_bag_of_terms example_collab example_doc ''tfidf'' True True
                   (Some [(1, 2), (2, 3), (3, 4)]) LTrue (1, 2) True False False)).
              map_of [(1::nat, 2::real), (2, 3), (3, 4)] key = None)"
      unfolding m by simp
    from scaled [OF hyp]
    obtain tw where tw: "fst (as_bag_of_terms example_collab example_doc ''tfidf'' True True
          (Some [(1, 2), (2, 3), (3, 4)]) LTrue (1, 2) True False False) = Inr tw"
        "dom tw = set_mset (term_counts_memo (snd (as_bag_of_terms example_collab example_doc
           ''tfidf'' True True (Some [(1, 2), (2, 3), (3, 4)]) LTrue (1, 2) True False False)))"
        "\<forall>key val. tw key = Some val \<longrightarrow>
           (\<exists>w. map_of [(1::nat, 2::real), (2, 3), (3, 4)] key = Some w \<and> val = 1 * w)"
      by blast
    have d: "dom tw = {1, 2, 3}" using tw(2) unfolding m by simp
    have val: "v = w" if "tw key = Some v" "map_of [(1::nat, 2::real), (2, 3), (3, 4)] key = Some w"
      for key v w
    proof -
      from tw(3) that(1) obtain w' where
        "map_of [(1::nat, 2::real), (2, 3), (3, 4)] key = Some w'" "v = 1 * w'"
        by blast
      then show ?thesis using that(2) by simp
    qed
    have "tw 0 = None" using d by (auto simp: dom_def)
    moreover have "tw 1 = Some 2"
    proof -
      obtain v where v: "tw 1 = Some v" using d by (auto simp: dom_def)
      then show ?thesis using val [OF v, of 2] by simp
    qed
    moreover have "tw 2 = Some 3"
    proof -
      obtain v where v: "tw 2 = Some v" using d by (auto simp: dom_def)
      then show ?thesis using val [OF v, of 3] by simp
    qed
    moreover have "tw 3 = Some 4"
    proof -
      obtain v where v: "tw 3 = Some v" using d by (auto simp: dom_def)
      then show ?thesis using val [OF v, of 4] by simp
    qed
    ultimately show ?thesis unfolding tw(1) by simp
  qed
  have p3: "fst (as_bag_of_terms example_collab example_doc ''tfidf'' True True
             (Some [(1, 2), (2, 3)]) LTrue (1, 2) True False False)
     = Inl KeyError"
  proof -
    have hyp: "[(1::nat, 2::real), (2, 3)] \<noteq> []
       \<and> (\<exists>key \<in># term_counts_memo
                (snd (as_bag_of_terms example_collab example_doc ''tfidf'' True True
                   (Some [(1, 2), (2, 3)]) LTrue (1, 2) True False False)).
              map_of [(1::nat, 2::real), (2, 3)] key = None)"
      unfolding m by simp
    show ?thesis by (rule missing [OF hyp])
  qed
  from p1 p2 p3 show ?thesis by (simp only: simp_thms)
qed

subsection \<open>from_texts\<close>

lemma add_docs_loop_step:
  assumes "c_lang (corpus_heap w c) = pipe_lang (c_spacy_pipeline (corpus_heap w c))"
  shows "add_docs_loop C w c lang_arg ((sd, md) # rest) =
     add_docs_loop C
       (append_doc
          (w\<lparr>doc_heap := (doc_heap w)(next_doc w :=
                \<lparr>metadata = md_or_empty md, term_counts_memo = {#},
                 lang = pipe_lang (c_spacy_pipeline (corpus_heap w c)),
                 spacy_vocab = sd_vocab sd,
                 spacy_stringstore = vocab_strings (sd_vocab sd),
                 spacy_doc = sd, corpus_index = None, corpus = None\<rparr>),
             next_doc := Suc (next_doc w)\<rparr>)
          c (next_doc w))
       c lang_arg rest"
  using assms
  by (simp add: TextDoc_init_def new_doc_def add_doc_def md_or_empty_def)

lemma add_docs_loop_ok:
  assumes "c_lang (corpus_heap w c) = pipe_lang (c_spacy_pipeline (corpus_heap w c))"
    and "\<forall>r \<in> set (docs (corpus_heap w c)). r < next_doc w"
  shows "fst (add_docs_loop C w c lang_arg pairs) = Inr ()
     \<and> map (doc_content (snd (add_docs_loop C w c lang_arg pairs)))
         (docs (corpus_heap (snd (add_docs_loop C w c lang_arg pairs)) c))
       = map (doc_content w) (docs (corpus_heap w c))
         @ map (\<lambda>(sd, md). (sd, md_or_empty md)) pairs
     \<and> n_docs (corpus_heap (snd (add_docs_loop C w c lang_arg pairs)) c)
       = n_docs (corpus_heap w c) + int (length pairs)"
  using assms
proof (induction pairs arbitrary: w)
  case Nil
  then show ?case by simp
next
  case (Cons pr rest)
  obtain sd md where pr: "pr = (sd, md)" by (cases pr)
  let ?d = "\<lparr>metadata = md_or_empty md, term_counts_memo = {#},
                 lang = pipe_lang (c_spacy_pipeline (corpus_heap w c)),
                 spacy_vocab = sd_vocab sd,
                 spacy_stringstore = vocab_strings (sd_vocab sd),
                 spacy_doc = sd, corpus_index = None, corpus = None\<rparr>"
  let ?w2 = "append_doc
          (w\<lparr>doc_heap := (doc_heap w)(next_doc w := ?d), next_doc := Suc (next_doc w)\<rparr>)
          c (next_doc w)"
  have step: "add_docs_loop C w c lang_arg (pr # rest) = add_docs_loop C ?w2 c lang_arg rest"
    unfolding pr by (rule add_docs_loop_step [OF Cons.prems(1)])
  have docs2: "docs (corpus_heap ?w2 c) = docs (corpus_heap w c) @ [next_doc w]"
    by (simp add: append_doc_def Let_def)
  have nd2: "n_docs (corpus_heap ?w2 c) = n_docs (corpus_heap w c) + 1"
    by (simp add: append_doc_def Let_def)
  have next2: "next_doc ?w2 = Suc (next_doc w)"
    by (simp add: append_doc_def Let_def)
  have lang2: "c_lang (corpus_heap ?w2 c) = pipe_lang (c_spacy_pipeline (corpus_heap ?w2 c))"
    using Cons.prems(1) by (simp add: append_doc_def Let_def)
  have fresh2: "\<forall>r \<in> set (docs (corpus_heap ?w2 c)). r < next_doc ?w2"
    using Cons.prems(2) by (auto simp: docs2 next2 less_Suc_eq)
  have old: "doc_content ?w2 r = doc_content w r" if "r < next_doc w" for r
    using that by (simp add: doc_content_def append_doc_def Let_def)
  have new: "doc_content ?w2 (next_doc w) = (sd, md_or_empty md)"
    by (simp add: doc_content_def append_doc_def Let_def)
  have content2: "map (doc_content ?w2) (docs (corpus_heap ?w2 c))
      = map (doc_content w) (docs (corpus_heap w c)) @ [(sd, md_or_empty md)]"
    using Cons.prems(2) by (simp add: docs2 new old)
  show ?case
    unfolding step
    using Cons.IH [OF lang2 fresh2]
    by (simp add: content2 nd2 pr)
qed

lemma add_docs_loop_mismatch:
  assumes "c_lang (corpus_heap w c) \<noteq> pipe_lang (c_spacy_pipeline (corpus_heap w c))"
    and "pairs \<noteq> []"
  shows "fst (add_docs_loop C w c lang_arg pairs) = Inl ValueError"
proof -
  obtain sd md rest where "pairs = (sd, md) # rest"
    using assms(2) by (cases pairs) auto
  then show ?thesis
    using assms(1) by (simp add: TextDoc_init_def new_doc_def add_doc_def)
qed

lemma zip_map_Some: "map (\<lambda>(sd, md). (sd, md_or_empty md)) (zip xs (map Some ys)) = zip xs ys"
  by (induction xs ys rule: list_induct2') (simp_all add: md_or_empty_def)

text \<open>
  C9. When \<^verbatim>\<open>from_texts\<close> is given metadata and returns a corpus, the docs of the corpus
  are, in order, the parsed documents paired with the metadata as \<^verbatim>\<open>zip\<close> pairs them, and
  \<^verbatim>\<open>n_docs\<close> is their number; with a pipeline that yields one parsed document per text
  there are \<open>min (length texts) (length mds)\<close> docs, and what is left over of the longer
  list is dropped. \<^verbatim>\<open>from_texts\<close> returns the new corpus whenever the loaded pipeline's
  language is \<^verbatim>\<open>lang\<close> or there is no pair; otherwise the first \<^verbatim>\<open>add_doc\<close> raises
  ValueError.
\<close>

theorem from_texts_pairs_by_zip:
  "(fst (from_texts C w lang_arg texts (Some mds)) = Inr c \<longrightarrow>
      map (\<lambda>doc. (spacy_doc (doc_heap (snd (from_texts C w lang_arg texts (Some mds))) doc),
                  metadata (doc_heap (snd (from_texts C w lang_arg texts (Some mds))) doc)))
        (docs (corpus_heap (snd (from_texts C w lang_arg texts (Some mds))) c))
      = zip (pipe (load_spacy C lang_arg) texts) mds
      \<and> n_docs (corpus_heap (snd (from_texts C w lang_arg texts (Some mds))) c)
        = int (length (docs (corpus_heap (snd (from_texts C w lang_arg texts (Some mds))) c)))
      \<and> (length (pipe (load_spacy C lang_arg) texts) = length texts \<longrightarrow>
          length (docs (corpus_heap (snd (from_texts C w lang_arg texts (Some mds))) c))
          = min (length texts) (length mds)))
   \<and> (pipe_lang (load_spacy C lang_arg) = lang_arg
       \<or> pipe (load_spacy C lang_arg) texts = [] \<or> mds = [] \<longrightarrow>
        fst (from_texts C w lang_arg texts (Some mds)) = Inr (next_corpus w))
   \<and> (pipe_lang (load_spacy C lang_arg) \<noteq> lang_arg
       \<and> pipe (load_spacy C lang_arg) texts \<noteq> [] \<and> mds \<noteq> [] \<longrightarrow>
        fst (from_texts C w lang_arg texts (Some mds)) = Inl ValueError)"
proof -
  let ?p = "load_spacy C lang_arg"
  let ?c = "next_corpus w"
  define w1 where "w1 = w\<lparr>corpus_heap := (corpus_heap w)(next_corpus w :=
            \<lparr>c_lang = lang_arg, c_spacy_pipeline = load_spacy C lang_arg,
             c_spacy_vocab = pipe_vocab (load_spacy C lang_arg),
             c_spacy_stringstore = vocab_strings (pipe_vocab (load_spacy C lang_arg)),
             docs = [], n_docs = 0, n_sents = 0, n_tokens = 0\<rparr>),
          next_corpus := Suc (next_corpus w)\<rparr>"
  let ?pairs = "zip (pipe ?p texts) (map Some mds)"
  let ?loop = "add_docs_loop C w1 ?c lang_arg ?pairs"
  let ?res = "from_texts C w lang_arg texts (Some mds)"
  have init: "TextCorpus_init C w lang_arg = (w1, ?c)"
    by (simp add: TextCorpus_init_def Let_def w1_def)
  have c1: "c_lang (corpus_heap w1 ?c) = lang_arg"
      "c_spacy_pipeline (corpus_heap w1 ?c) = ?p"
      "docs (corpus_heap w1 ?c) = []" "n_docs (corpus_heap w1 ?c) = 0"
    by (simp_all add: w1_def)
  have ft: "?res = (case ?loop of (Inl e, w2) \<Rightarrow> (Inl e, w2) | (Inr u, w2) \<Rightarrow> (Inr ?c, w2))"
    by (simp add: from_texts_def init c1 Let_def)
  have snd_res: "snd ?res = snd ?loop"
    unfolding ft by (cases ?loop) (auto split: sum.splits)
  have fst_res: "fst ?res = (case fst ?loop of Inl e \<Rightarrow> Inl e | Inr u \<Rightarrow> Inr ?c)"
    unfolding ft by (cases ?loop) (auto split: sum.splits)
  have pairs_empty: "?pairs = [] \<longleftrightarrow> pipe ?p texts = [] \<or> mds = []"
    by simp
  have good: "fst ?loop = Inr ()
     \<and> map (doc_content (snd ?loop)) (docs (corpus_heap (snd ?loop) ?c)) = zip (pipe ?p texts) mds
     \<and> n_docs (corpus_heap (snd ?loop) ?c) = int (length (zip (pipe ?p texts) mds))"
    if "pipe_lang ?p = lang_arg \<or> ?pairs = []"
  proof (cases "?pairs = []")
    case True
    have z: "zip (pipe ?p texts) mds = []"
      using True by (metis zip_map_Some list.simps(8))
    show ?thesis
      unfolding True z by (simp add: c1)
  next
    case False
    then have pl: "c_lang (corpus_heap w1 ?c) = pipe_lang (c_spacy_pipeline (corpus_heap w1 ?c))"
      using that by (simp add: c1)
    have fr: "\<forall>r \<in> set (docs (corpus_heap w1 ?c)). r < next_doc w1"
      by (simp add: c1)
    show ?thesis
      using add_docs_loop_ok [OF pl fr, of C lang_arg ?pairs]
      by (simp add: c1 zip_map_Some)
  qed
  have bad: "fst ?loop = Inl ValueError" if "pipe_lang ?p \<noteq> lang_arg" "?pairs \<noteq> []"
    using add_docs_loop_mismatch [of w1 ?c ?pairs C lang_arg] that by (simp add: c1)
  have A: "fst ?res = Inr c \<longrightarrow>
      map (\<lambda>doc. (spacy_doc (doc_heap (snd ?res) doc), metadata (doc_heap (snd ?res) doc)))
        (docs (corpus_heap (snd ?res) c))
      = zip (pipe ?p texts) mds
      \<and> n_docs (corpus_heap (snd ?res) c) = int (length (docs (corpus_heap (snd ?res) c)))
      \<and> (length (pipe ?p texts) = length texts \<longrightarrow>
          length (docs (corpus_heap (snd ?res) c)) = min (length texts) (length mds))"
  proof
    assume r: "fst ?res = Inr c"
    have ok: "pipe_lang ?p = lang_arg \<or> ?pairs = []"
    proof (rule ccontr)
      assume "\<not> ?thesis"
      then have "fst ?loop = Inl ValueError" using bad by blast
      then show False using r by (simp add: fst_res)
    qed
    have ceq: "c = ?c" using r good [OF ok] by (simp add: fst_res)
    have m: "map (doc_content (snd ?res)) (docs (corpus_heap (snd ?res) c)) = zip (pipe ?p texts) mds"
      using good [OF ok] by (simp add: snd_res ceq)
    have "length (map (doc_content (snd ?res)) (docs (corpus_heap (snd ?res) c)))
        = length (zip (pipe ?p texts) mds)"
      by (simp only: m)
    then have l: "length (docs (corpus_heap (snd ?res) c)) = length (zip (pipe ?p texts) mds)"
      by simp
    have n: "n_docs (corpus_heap (snd ?res) c) = int (length (zip (pipe ?p texts) mds))"
      using good [OF ok] by (simp add: snd_res ceq)
    have m': "map (\<lambda>doc. (spacy_doc (doc_heap (snd ?res) doc), metadata (doc_heap (snd ?res) doc)))
        (docs (corpus_heap (snd ?res) c)) = zip (pipe ?p texts) mds"
      using m by (simp add: doc_content_def [abs_def])
    show "map (\<lambda>doc. (spacy_doc (doc_heap (snd ?res) doc), metadata (doc_heap (snd ?res) doc)))
        (docs (corpus_heap (snd ?res) c))
      = zip (pipe ?p texts) mds
      \<and> n_docs (corpus_heap (snd ?res) c) = int (length (docs (corpus_heap (snd ?res) c)))
      \<and> (length (pipe ?p texts) = length texts \<longrightarrow>
          length (docs (corpus_heap (snd ?res) c)) = min (length texts) (length mds))"
      using m' l n by simp
  qed
  have B: "pipe_lang ?p = lang_arg \<or> pipe ?p texts = [] \<or> mds = [] \<longrightarrow> fst ?res = Inr ?c"
    using good pairs_empty by (auto simp: fst_res)
  have D: "pipe_lang ?p \<noteq> lang_arg \<and> pipe ?p texts \<noteq> [] \<and> mds \<noteq> []
      \<longrightarrow> fst ?res = Inl ValueError"
    using bad pairs_empty by (auto simp: fst_res)
  from A B D show ?thesis by blast
qed

theorem from_texts_pairs_by_zip_witness:
  "fst (from_texts example_collab empty_world ''en'' [''Hi Bob'', ''Bye'']
          (Some [[(''title'', ''greeting'')]])) = Inr 0
   \<and> length (docs (corpus_heap
         (snd (from_texts example_collab empty_world ''en'' [''Hi Bob'', ''Bye'']
                 (Some [[(''title'', ''greeting'')]]))) 0)) = 1
   \<and> n_docs (corpus_heap
         (snd (from_texts example_collab empty_world ''en'' [''Hi Bob'', ''Bye'']
                 (Some [[(''title'', ''greeting'')]]))) 0) = 1"
proof -
  have l: "pipe_lang (load_spacy example_collab ''en'') = ''en''"
    by (simp add: example_collab_def example_pipeline_def)
  have p: "length (pipe (load_spacy example_collab ''en'') [''Hi Bob'', ''Bye''])
      = length [''Hi Bob'', ''Bye'']"
    by (simp add: example_collab_def example_pipeline_def)
  have n: "next_corpus empty_world = 0" by (simp add: empty_world_def)
  note t = from_texts_pairs_by_zip [of example_collab empty_world "''en''"
      "[''Hi Bob'', ''Bye'']" "[[(''title'', ''greeting'')]]" 0]
  have r: "fst (from_texts example_collab empty_world ''en'' [''Hi Bob'', ''Bye'']
          (Some [[(''title'', ''greeting'')]])) = Inr 0"
    using t l n by simp
  show ?thesis
    using t r p by simp
qed

subsection \<open>term_count\<close>

lemma counted_doc_eq: "counted_doc = example_doc\<lparr>term_counts_memo := {#1, 2, 3#}\<rparr>"
  by (simp add: counted_doc_def term_counts_def count_ngrams_def get_id_def words_def
      ngrams_def upto.simps example_defs)

lemma count_matches_Bob: "count_matches ''Bob'' ''Hi Bob'' = 1"
  by code_simp

text \<open>
  C6 as stated fails: after \<^verbatim>\<open>term_counts(lemmatize=True, ngram_range=(1, 2))\<close> the lemmas
  hi, bob and "hi bob" are memoized. The id of the string 'Bob' is absent from the counts,
  yet \<^verbatim>\<open>term_count('Bob')\<close> does not extend them (the words would add the ids 4 and 5): it
  returns the one regex match and leaves the doc as it was.
\<close>

theorem term_count_no_extension_counterexample:
  "count (term_counts_memo counted_doc) (ss_id (spacy_stringstore counted_doc) ''Bob'') = 0
   \<and> term_count example_collab counted_doc (TStr ''Bob'') = (Inr 1, counted_doc)
   \<and> mset (map (\<lambda>w. get_id example_collab counted_doc Auto (Tok w))
             (words example_collab counted_doc [])) = {#4, 5#}
   \<and> term_counts_memo counted_doc = {#1, 2, 3#}"
  unfolding counted_doc_eq
  by (simp add: term_count_def count_spaces_def get_id_def words_def doc_text_def
      count_matches_Bob example_defs)

text \<open>
  C6, as the code has it. For a string, \<^verbatim>\<open>term_count\<close> never raises. A positive memoized
  count is returned and the doc is unchanged. Otherwise the doc is left as it is or its
  counts are extended (\<^verbatim>\<open>+=\<close>) by the counts of the n-grams of the term's length (the
  words for length 1), and they are extended whenever nothing is memoized; the result is
  the term's count after that when it is positive, else the number of matches of the
  literal term in the raw text.
\<close>

theorem term_count_str:
  "\<not> isl (fst (term_count C d (TStr s)))
   \<and> (0 < count (term_counts_memo d) (ss_id (spacy_stringstore d) s) \<longrightarrow>
        term_count C d (TStr s)
        = (Inr (int (count (term_counts_memo d) (ss_id (spacy_stringstore d) s))), d))
   \<and> (count (term_counts_memo d) (ss_id (spacy_stringstore d) s) = 0 \<longrightarrow>
        (snd (term_count C d (TStr s)) = d
         \<or> snd (term_count C d (TStr s))
           = d\<lparr>term_counts_memo :=
                 term_counts_memo d + ngram_counter C d Auto (int (count_spaces s) + 1)\<rparr>)
        \<and> fst (term_count C d (TStr s))
          = Inr (if 0 < count (term_counts_memo (snd (term_count C d (TStr s))))
                         (ss_id (spacy_stringstore d) s)
                 then int (count (term_counts_memo (snd (term_count C d (TStr s))))
                            (ss_id (spacy_stringstore d) s))
                 else int (count_matches s (doc_text d))))
   \<and> (term_counts_memo d = {#} \<longrightarrow>
        snd (term_count C d (TStr s))
        = d\<lparr>term_counts_memo :=
              term_counts_memo d + ngram_counter C d Auto (int (count_spaces s) + 1)\<rparr>)"
  by (auto simp: term_count_def Let_def ngram_counter_def doc_text_def)

theorem term_count_str_witness:
  "term_count example_collab (example_doc\<lparr>term_counts_memo := {#4, 5#}\<rparr>) (TStr ''Bob'')
     = (Inr 1, example_doc\<lparr>term_counts_memo := {#4, 5#}\<rparr>)
   \<and> term_count example_collab example_doc (TStr ''Bob'')
     = (Inr 1, example_doc\<lparr>term_counts_memo := {#4, 5#}\<rparr>)
   \<and> term_count example_collab example_doc (TStr ''ob'')
     = (Inr 1, example_doc\<lparr>term_counts_memo := {#4, 5#}\<rparr>)"
proof -
  let ?d2 = "example_doc\<lparr>term_counts_memo := {#4, 5#}\<rparr>"
  have ids: "ss_id (spacy_stringstore example_doc) ''Bob'' = 5"
      "ss_id (spacy_stringstore example_doc) ''ob'' = 0"
      "ss_id (spacy_stringstore ?d2) ''Bob'' = 5"
    by (simp_all add: example_defs)
  have empty: "term_counts_memo example_doc = {#}"
    by (simp add: example_doc_def)
  have nc: "ngram_counter example_collab example_doc Auto (int (count_spaces ''Bob'') + 1)
        = {#4, 5#}"
      "ngram_counter example_collab example_doc Auto (int (count_spaces ''ob'') + 1)
        = {#4, 5#}"
    by (simp_all add: ngram_counter_def count_spaces_def get_id_def words_def example_defs)
  have cm: "count_matches ''ob'' (doc_text example_doc) = 1"
    unfolding doc_text_def example_doc_def example_sdoc_def by code_simp
  have pos: "0 < count (term_counts_memo ?d2) (ss_id (spacy_stringstore ?d2) ''Bob'')"
    unfolding ids by simp
  have zero: "count (term_counts_memo example_doc)
      (ss_id (spacy_stringstore example_doc) ''Bob'') = 0"
      "count (term_counts_memo example_doc)
      (ss_id (spacy_stringstore example_doc) ''ob'') = 0"
    by (simp_all add: empty)
  note t_pos = term_count_str [THEN conjunct2, THEN conjunct1, rule_format]
  note t_zero = term_count_str [THEN conjunct2, THEN conjunct2, THEN conjunct1, rule_format,
      THEN conjunct2]
  note t_empty = term_count_str [THEN conjunct2, THEN conjunct2, THEN conjunct2, rule_format]
  have a: "term_count example_collab ?d2 (TStr ''Bob'') = (Inr 1, ?d2)"
    using t_pos [of ?d2 "''Bob''" example_collab, OF pos] by (simp only: ids) simp
  have b2: "snd (term_count example_collab example_doc (TStr ''Bob'')) = ?d2"
    using t_empty [of example_doc example_collab "''Bob''", OF empty]
    by (simp only: nc empty) simp
  have b1: "fst (term_count example_collab example_doc (TStr ''Bob'')) = Inr 1"
    using t_zero [of example_doc "''Bob''" example_collab, OF zero(1)]
    by (simp only: b2 ids) simp
  have c2: "snd (term_count example_collab example_doc (TStr ''ob'')) = ?d2"
    using t_empty [of example_doc example_collab "''ob''", OF empty]
    by (simp only: nc empty) simp
  have c1: "fst (term_count example_collab example_doc (TStr ''ob'')) = Inr 1"
    using t_zero [of example_doc "''ob''" example_collab, OF zero(2)]
    by (simp only: c2 ids cm) simp
  show ?thesis
    using a b1 b2 c1 c2 by (simp only: prod_eq_iff fst_conv snd_conv)
qed


end
